theory Spec2Isabelle
  imports Complex_Main "HOL-Library.Stream"
begin

section \<open>The investment game simulations\<close>

text \<open>
  A shallow embedding of the simulation engine of the four scripts
  \<^verbatim>\<open>single_simulation.py\<close>, \<open>single_sim_plot.py\<close>, \<open>multiple_simulations.py\<close> and
  \<open>modified_strategy_simulations.py\<close>.

  Modelling decisions, all of them visible in the definitions below:
  \<^item> A balance is a \<open>real\<close>. Python computes with binary64 floats; the rounding,
    overflow and underflow of that arithmetic are not modelled, every product and sum
    is exact. The literals \<open>1.5\<close>, \<open>0.6\<close> and \<open>0.5\<close> are the decimal fractions.
  \<^item> The process-wide generator behind \<open>np.random.binomial(1, 0.5)\<close> (and
    \<open>random.randint(0, 1)\<close> in \<open>single_sim_plot.py\<close>) is the stream of the bits it
    is going to produce. A draw returns the head of the stream as \<open>1\<close> or \<open>0\<close> and
    leaves the tail as the new generator state; the state is passed explicitly.
  \<^item> \<open>years\<close> and \<open>n_sims\<close> are Python integers (\<open>int\<close>); \<open>range(k)\<close> runs
    \<open>nat k\<close> times, so not at all for \<open>k \<le> 0\<close>.
  \<^item> No function of the engine raises: there is no \<open>raise\<close> in the scripts, and
    \<open>path[-1]\<close> reads a list that always holds the initial balance. The models are
    therefore total functions without an error value.
\<close>

subsection \<open>The randomness source\<close>

type_synonym rng = "bool stream"

text \<open>\<open>np.random.binomial(1, 0.5)\<close>: one draw, 1 = heads, 0 = tails.\<close>

definition binomial :: "rng \<Rightarrow> int \<times> rng" where
  "binomial g = ((if shd g then 1 else 0), stl g)"

subsection \<open>Path generator, full stake\<close>

definition age_start :: int where
  "age_start = 25"

text \<open>
  The body of \<open>for year in range(years)\<close> in \<open>simulate_investment_game\<close>. The first
  argument counts the iterations that are left, the second is the loop variable
  \<open>year\<close>; the tuple holds \<open>balance\<close>, \<open>path\<close>, \<open>ages\<close>, \<open>coin_flips\<close> and the
  generator.
\<close>

fun investment_loop ::
  "nat \<Rightarrow> int \<Rightarrow> real \<times> real list \<times> int list \<times> int list \<times> rng
     \<Rightarrow> real \<times> real list \<times> int list \<times> int list \<times> rng" where
  "investment_loop 0 year st = st"
| "investment_loop (Suc k) year (balance, path, ags, coin_flips, g) =
     (let (coin_flip, g') = binomial g;
          coin_flips' = coin_flips @ [coin_flip];
          balance' = (if coin_flip = 1 then balance * 1.5 else balance * 0.6);
          path' = path @ [balance'];
          ags' = ags @ [age_start + year + 1]
      in investment_loop k (year + 1) (balance', path', ags', coin_flips', g'))"

text \<open>\<open>simulate_investment_game(initial, years)\<close> returns \<open>ages, path, coin_flips\<close>.\<close>

definition simulate_investment_game ::
  "real \<Rightarrow> int \<Rightarrow> rng \<Rightarrow> (int list \<times> real list \<times> int list) \<times> rng" where
  "simulate_investment_game initial years g =
     (let (balance, path, ags, coin_flips, g') =
            investment_loop (nat years) 0 (initial, [initial], [age_start], [], g)
      in ((ags, path, coin_flips), g'))"

subsection \<open>Path generator, partial stake\<close>

text \<open>
  The loop of \<open>simulate_modified_investment_game\<close>: half of the balance is bet, the
  other half is kept, and the new balance is their sum after the flip. The tuple has
  the list \<open>bet_amounts\<close> in addition.
\<close>

fun modified_loop ::
  "nat \<Rightarrow> int \<Rightarrow> real \<times> real list \<times> int list \<times> int list \<times> real list \<times> rng
     \<Rightarrow> real \<times> real list \<times> int list \<times> int list \<times> real list \<times> rng" where
  "modified_loop 0 year st = st"
| "modified_loop (Suc k) year (balance, path, ags, coin_flips, bet_amounts, g) =
     (let bet_amount = balance * 0.5;
          unbet_amount = balance * 0.5;
          (coin_flip, g') = binomial g;
          coin_flips' = coin_flips @ [coin_flip];
          bet_amounts' = bet_amounts @ [bet_amount];
          bet_outcome = (if coin_flip = 1 then bet_amount * 1.5 else bet_amount * 0.6);
          balance' = unbet_amount + bet_outcome;
          path' = path @ [balance'];
          ags' = ags @ [age_start + year + 1]
      in modified_loop k (year + 1) (balance', path', ags', coin_flips', bet_amounts', g'))"

definition simulate_modified_investment_game ::
  "real \<Rightarrow> int \<Rightarrow> rng \<Rightarrow> (int list \<times> real list \<times> int list \<times> real list) \<times> rng" where
  "simulate_modified_investment_game initial years g =
     (let (balance, path, ags, coin_flips, bet_amounts, g') =
            modified_loop (nat years) 0 (initial, [initial], [age_start], [], [], g)
      in ((ags, path, coin_flips, bet_amounts), g'))"

subsection \<open>Trial runner\<close>

text \<open>The dictionary appended to \<open>all_paths\<close> for each simulation.\<close>

record trial =
  simulation :: int
  ages :: "int list"
  balances :: "real list"
  final_balance :: real
  heads_count :: int
  tails_count :: int

text \<open>
  The body of \<open>for sim in range(n_sims)\<close> in \<open>run_multiple_simulations\<close>;
  \<open>path[-1]\<close> is the last element of a list that is never empty.
\<close>

fun multiple_loop ::
  "nat \<Rightarrow> int \<Rightarrow> real \<Rightarrow> int \<Rightarrow> real list \<times> trial list \<times> rng
     \<Rightarrow> real list \<times> trial list \<times> rng" where
  "multiple_loop 0 sim initial years st = st"
| "multiple_loop (Suc k) sim initial years (final_balances, all_paths, g) =
     (let ((ags, path, flips), g') = simulate_investment_game initial years g;
          final_balances' = final_balances @ [last path];
          all_paths' = all_paths @
            [\<lparr>simulation = sim + 1, ages = ags, balances = path,
              final_balance = last path, heads_count = sum_list flips,
              tails_count = int (length flips) - sum_list flips\<rparr>]
      in multiple_loop k (sim + 1) initial years (final_balances', all_paths', g'))"

definition run_multiple_simulations ::
  "int \<Rightarrow> real \<Rightarrow> int \<Rightarrow> rng \<Rightarrow> (real list \<times> trial list) \<times> rng" where
  "run_multiple_simulations n_sims initial years g =
     (let (final_balances, all_paths, g') =
            multiple_loop (nat n_sims) 0 initial years ([], [], g)
      in ((final_balances, all_paths), g'))"

text \<open>The same loop in \<open>run_modified_simulations\<close>, over the partial-stake generator.\<close>

fun modified_run_loop ::
  "nat \<Rightarrow> int \<Rightarrow> real \<Rightarrow> int \<Rightarrow> real list \<times> trial list \<times> rng
     \<Rightarrow> real list \<times> trial list \<times> rng" where
  "modified_run_loop 0 sim initial years st = st"
| "modified_run_loop (Suc k) sim initial years (final_balances, all_paths, g) =
     (let ((ags, path, flips, bets), g') = simulate_modified_investment_game initial years g;
          final_balances' = final_balances @ [last path];
          all_paths' = all_paths @
            [\<lparr>simulation = sim + 1, ages = ags, balances = path,
              final_balance = last path, heads_count = sum_list flips,
              tails_count = int (length flips) - sum_list flips\<rparr>]
      in modified_run_loop k (sim + 1) initial years (final_balances', all_paths', g'))"

definition run_modified_simulations ::
  "int \<Rightarrow> real \<Rightarrow> int \<Rightarrow> rng \<Rightarrow> (real list \<times> trial list) \<times> rng" where
  "run_modified_simulations n_sims initial years g =
     (let (final_balances, all_paths, g') =
            modified_run_loop (nat n_sims) 0 initial years ([], [], g)
      in ((final_balances, all_paths), g'))"

subsection \<open>Aggregate statistics\<close>

text \<open>
  The statistics are module-level assignments of \<open>multiple_simulations.py\<close> and
  \<open>modified_strategy_simulations.py\<close>; here each is a function of the globals it
  reads (\<open>final_balances\<close>, \<open>initial_balance\<close>, \<open>n_simulations\<close>).

  The numpy reductions are library code. They are modelled by what numpy documents:
  the mean, median and standard deviation of an empty array are \<open>nan\<close> (numpy emits
  a \<open>RuntimeWarning\<close> and raises nothing), \<open>np.std\<close> is the population standard
  deviation, a comparison of an array with a scalar is the array of booleans, the
  mean of booleans counts \<open>True\<close> as 1, and \<open>np.sum\<close> of booleans is their count.
\<close>

datatype npfloat = NaN | Val real

definition np_mean :: "real list \<Rightarrow> npfloat" where
  "np_mean xs = (if xs = [] then NaN else Val (sum_list xs / real (length xs)))"

definition np_median :: "real list \<Rightarrow> npfloat" where
  "np_median xs =
     (if xs = [] then NaN
      else let s = sort xs; n = length s
           in if odd n then Val (s ! (n div 2))
              else Val ((s ! (n div 2 - 1) + s ! (n div 2)) / 2))"

definition np_std :: "real list \<Rightarrow> npfloat" where
  "np_std xs =
     (if xs = [] then NaN
      else let m = sum_list xs / real (length xs)
           in Val (sqrt (sum_list (map (\<lambda>x. (x - m)\<^sup>2) xs) / real (length xs))))"

definition np_greater :: "real list \<Rightarrow> real \<Rightarrow> bool list" where
  "np_greater xs t = map (\<lambda>x. x > t) xs"

definition np_less :: "real list \<Rightarrow> real \<Rightarrow> bool list" where
  "np_less xs t = map (\<lambda>x. x < t) xs"

definition np_mean_bool :: "bool list \<Rightarrow> npfloat" where
  "np_mean_bool bs =
     (if bs = [] then NaN else Val (real (length (filter id bs)) / real (length bs)))"

definition np_sum_bool :: "bool list \<Rightarrow> int" where
  "np_sum_bool bs = int (length (filter id bs))"

definition mean_balance :: "real list \<Rightarrow> npfloat" where
  "mean_balance final_balances = np_mean final_balances"

definition median_balance :: "real list \<Rightarrow> npfloat" where
  "median_balance final_balances = np_median final_balances"

definition std_balance :: "real list \<Rightarrow> npfloat" where
  "std_balance final_balances = np_std final_balances"

definition prob_above_initial :: "real list \<Rightarrow> real \<Rightarrow> npfloat" where
  "prob_above_initial final_balances initial_balance =
     np_mean_bool (np_greater final_balances initial_balance)"

definition prob_above_10000 :: "real list \<Rightarrow> npfloat" where
  "prob_above_10000 final_balances = np_mean_bool (np_greater final_balances 10000)"


text \<open>
  The outcome categories. \<open>high_value_sims\<close> exists in
  \<open>modified_strategy_simulations.py\<close> only; the other three are the same in both
  scripts.
\<close>

definition profitable_sims :: "real list \<Rightarrow> real \<Rightarrow> int" where
  "profitable_sims final_balances initial_balance =
     np_sum_bool (np_greater final_balances initial_balance)"

definition high_value_sims :: "real list \<Rightarrow> int" where
  "high_value_sims final_balances = np_sum_bool (np_greater final_balances 10000)"

definition catastrophic_sims :: "real list \<Rightarrow> int" where
  "catastrophic_sims final_balances = np_sum_bool (np_less final_balances 100)"

definition moderate_sims :: "int \<Rightarrow> real list \<Rightarrow> real \<Rightarrow> int" where
  "moderate_sims n_simulations final_balances initial_balance =
     n_simulations - profitable_sims final_balances initial_balance
       - catastrophic_sims final_balances"

subsection \<open>Closed forms of the loops\<close>

text \<open>
  Auxiliary functions for the proofs. They describe what the loops above compute as
  functions of the list of flips; the lemmas of the next section connect them to the
  loops, and every claim is stated on the functions of the scripts.
\<close>

text \<open>The first \<open>k\<close> results the generator is going to return.\<close>

definition flips_of :: "nat \<Rightarrow> rng \<Rightarrow> int list" where
  "flips_of k g = map (\<lambda>b. if b then 1 else 0) (stake k g)"

text \<open>One balance update of each variant, as a function of the flip.\<close>

definition full_step :: "real \<Rightarrow> int \<Rightarrow> real" where
  "full_step b c = (if c = 1 then b * 1.5 else b * 0.6)"

definition half_step :: "real \<Rightarrow> int \<Rightarrow> real" where
  "half_step b c = b * 0.5 + (if c = 1 then b * 0.5 * 1.5 else b * 0.5 * 0.6)"

text \<open>The balances after each flip, the ages and the bets that the loops append.\<close>

fun trace :: "(real \<Rightarrow> int \<Rightarrow> real) \<Rightarrow> real \<Rightarrow> int list \<Rightarrow> real list" where
  "trace f b [] = []"
| "trace f b (c # cs) = f b c # trace f (f b c) cs"

fun ages_from :: "int \<Rightarrow> nat \<Rightarrow> int list" where
  "ages_from year 0 = []"
| "ages_from year (Suc k) = (age_start + year + 1) # ages_from (year + 1) k"

fun bets_of :: "real \<Rightarrow> int list \<Rightarrow> real list" where
  "bets_of b [] = []"
| "bets_of b (c # cs) = b * 0.5 # bets_of (half_step b c) cs"

text \<open>The dictionary of a trial, from the flips of its path.\<close>

definition trial_of :: "(real \<Rightarrow> int \<Rightarrow> real) \<Rightarrow> real \<Rightarrow> nat \<Rightarrow> int \<Rightarrow> int list \<Rightarrow> trial" where
  "trial_of f initial y sim fl =
     \<lparr>simulation = sim, ages = age_start # ages_from 0 y,
      balances = initial # trace f initial fl,
      final_balance = last (initial # trace f initial fl),
      heads_count = sum_list fl,
      tails_count = int (length fl) - sum_list fl\<rparr>"

text \<open>The flips of trial number \<open>i\<close> (from 0) when every trial draws \<open>y\<close> times.\<close>

definition chunk :: "nat \<Rightarrow> nat \<Rightarrow> rng \<Rightarrow> int list" where
  "chunk y i g = flips_of y (sdrop (i * y) g)"

section \<open>The loops in closed form\<close>

lemma flips_of_0: "flips_of 0 g = []"
  by (simp add: flips_of_def)

lemma flips_of_Suc: "flips_of (Suc k) g = (if shd g then 1 else 0) # flips_of k (stl g)"
  by (simp add: flips_of_def)

lemma length_flips_of: "length (flips_of k g) = k"
  by (simp add: flips_of_def)

lemma set_flips_of: "set (flips_of k g) \<subseteq> {0, 1}"
  by (auto simp: flips_of_def)

lemma chunk_0: "chunk y 0 g = flips_of y g"
  by (simp add: chunk_def)

lemma chunk_Suc: "chunk y (Suc i) g = chunk y i (sdrop y g)"
  by (simp add: chunk_def)


lemma length_chunk: "length (chunk y i g) = y"
  by (simp add: chunk_def length_flips_of)

lemma investment_loop_char:
  "investment_loop k year (b, p, a, f, g) =
     (foldl full_step b (flips_of k g), p @ trace full_step b (flips_of k g),
      a @ ages_from year k, f @ flips_of k g, sdrop k g)"
proof (induction k arbitrary: year b p a f g)
  case 0
  then show ?case by (simp add: flips_of_0)
next
  case (Suc k)
  have step: "(if (c::int) = 1 then x * 1.5 else x * 0.6) = full_step x c" for x c
    by (simp add: full_step_def)
  show ?case
    by (simp only: investment_loop.simps binomial_def Let_def prod.case step Suc.IH)
       (simp add: flips_of_Suc)
qed

lemma modified_loop_char:
  "modified_loop k year (b, p, a, f, bs, g) =
     (foldl half_step b (flips_of k g), p @ trace half_step b (flips_of k g),
      a @ ages_from year k, f @ flips_of k g,
      bs @ bets_of b (flips_of k g), sdrop k g)"
proof (induction k arbitrary: year b p a f bs g)
  case 0
  then show ?case by (simp add: flips_of_0)
next
  case (Suc k)
  have step: "x * 0.5 + (if (c::int) = 1 then x * 0.5 * 1.5 else x * 0.5 * 0.6) = half_step x c"
    for x c
    by (simp add: half_step_def)
  show ?case
    by (simp only: modified_loop.simps binomial_def Let_def prod.case step Suc.IH)
       (simp add: flips_of_Suc)
qed

lemma simulate_investment_game_char:
  "simulate_investment_game initial years g =
     ((age_start # ages_from 0 (nat years),
       initial # trace full_step initial (flips_of (nat years) g),
       flips_of (nat years) g),
      sdrop (nat years) g)"
  by (simp add: simulate_investment_game_def investment_loop_char)

lemma simulate_modified_investment_game_char:
  "simulate_modified_investment_game initial years g =
     ((age_start # ages_from 0 (nat years),
       initial # trace half_step initial (flips_of (nat years) g),
       flips_of (nat years) g,
       bets_of initial (flips_of (nat years) g)),
      sdrop (nat years) g)"
  by (simp add: simulate_modified_investment_game_def modified_loop_char)

lemma multiple_loop_char:
  "multiple_loop k sim initial years (fb, ap, g) =
     (fb @ map (\<lambda>i. last (initial # trace full_step initial (chunk (nat years) i g))) [0..<k],
      ap @ map (\<lambda>i. trial_of full_step initial (nat years) (sim + int i + 1)
                        (chunk (nat years) i g)) [0..<k],
      sdrop (k * nat years) g)"
proof (induction k arbitrary: sim fb ap g)
  case 0
  then show ?case by simp
next
  case (Suc k)
  have ar: "sim + 1 + int i + 1 = sim + int (Suc i) + 1" for i
    by simp
  show ?case
    by (simp only: multiple_loop.simps simulate_investment_game_char Let_def prod.case Suc.IH
          map_upt_Suc chunk_Suc chunk_0 ar trial_of_def [symmetric])
       (simp add: add.commute)
qed

lemma modified_run_loop_char:
  "modified_run_loop k sim initial years (fb, ap, g) =
     (fb @ map (\<lambda>i. last (initial # trace half_step initial (chunk (nat years) i g))) [0..<k],
      ap @ map (\<lambda>i. trial_of half_step initial (nat years) (sim + int i + 1)
                        (chunk (nat years) i g)) [0..<k],
      sdrop (k * nat years) g)"
proof (induction k arbitrary: sim fb ap g)
  case 0
  then show ?case by simp
next
  case (Suc k)
  have ar: "sim + 1 + int i + 1 = sim + int (Suc i) + 1" for i
    by simp
  show ?case
    by (simp only: modified_run_loop.simps simulate_modified_investment_game_char Let_def
          prod.case Suc.IH map_upt_Suc chunk_Suc chunk_0 ar trial_of_def [symmetric])
       (simp add: add.commute)
qed

lemma run_multiple_simulations_char:
  "run_multiple_simulations n_sims initial years g =
     ((map (\<lambda>i. last (initial # trace full_step initial (chunk (nat years) i g)))
         [0..<nat n_sims],
       map (\<lambda>i. trial_of full_step initial (nat years) (int i + 1) (chunk (nat years) i g))
         [0..<nat n_sims]),
      sdrop (nat n_sims * nat years) g)"
  by (simp add: run_multiple_simulations_def multiple_loop_char)

lemma run_modified_simulations_char:
  "run_modified_simulations n_sims initial years g =
     ((map (\<lambda>i. last (initial # trace half_step initial (chunk (nat years) i g)))
         [0..<nat n_sims],
       map (\<lambda>i. trial_of half_step initial (nat years) (int i + 1) (chunk (nat years) i g))
         [0..<nat n_sims]),
      sdrop (nat n_sims * nat years) g)"
  by (simp add: run_modified_simulations_def modified_run_loop_char)

section \<open>Facts about flips and traces\<close>

lemma length_trace: "length (trace f b cs) = length cs"
  by (induction cs arbitrary: b) simp_all

lemma last_trace: "last (b # trace f b cs) = foldl f b cs"
  by (induction cs arbitrary: b) simp_all

lemma count_flips:
  "set cs \<subseteq> {0, 1::int} \<Longrightarrow> count_list cs 1 + count_list cs 0 = length cs"
  by (induction cs) auto

lemma sum_flips:
  "set cs \<subseteq> {0, 1::int} \<Longrightarrow> sum_list cs = int (count_list cs 1)"
  by (induction cs) auto

lemma tails_flips:
  "set cs \<subseteq> {0, 1::int} \<Longrightarrow> int (length cs) - sum_list cs = int (count_list cs 0)"
  using count_flips [of cs] sum_flips [of cs] by simp






lemma trial_of_sel:
  "balances (trial_of f initial y sim fl) = initial # trace f initial fl"
  "final_balance (trial_of f initial y sim fl) = foldl f initial fl"
  "heads_count (trial_of f initial y sim fl) = sum_list fl"
  "tails_count (trial_of f initial y sim fl) = int (length fl) - sum_list fl"
  "simulation (trial_of f initial y sim fl) = sim"
  by (simp_all add: trial_of_def last_trace del: last.simps)

lemma chunk_cong:
  assumes "stake (k * y) g1 = stake (k * y) g2" and "i < k"
  shows "chunk y i g1 = chunk y i g2"
proof -
  have le: "i * y + y \<le> k * y"
    using assms(2) by (metis Suc_leI mult_Suc mult_le_mono1 add.commute)
  have eq: "stake y (sdrop (i * y) g) = drop (i * y) (take (i * y + y) (stake (k * y) g))" for g
    using le by (simp add: take_stake drop_stake min_def)
  have "stake y (sdrop (i * y) g1) = stake y (sdrop (i * y) g2)"
    unfolding eq assms(1) ..
  then show ?thesis
    by (simp add: chunk_def flips_of_def)
qed

section \<open>Facts about the statistics\<close>


lemma np_sum_bool_greater:
  "np_sum_bool (np_greater xs t) = int (length (filter (\<lambda>x. x > t) xs))"
  by (simp add: np_sum_bool_def np_greater_def filter_map comp_def)

lemma np_sum_bool_less:
  "np_sum_bool (np_less xs t) = int (length (filter (\<lambda>x. x < t) xs))"
  by (simp add: np_sum_bool_def np_less_def filter_map comp_def)

lemma three_way_count:
  "(100::real) \<le> t \<Longrightarrow>
     length (filter (\<lambda>x. x < 100) xs) + length (filter (\<lambda>x. 100 \<le> x \<and> x \<le> t) xs) +
       length (filter (\<lambda>x. x > t) xs) = length xs"
  by (induction xs) auto

lemma high_le_profitable:
  "t \<le> (10000::real) \<Longrightarrow>
     length (filter (\<lambda>x. x > 10000) xs) \<le> length (filter (\<lambda>x. x > t) xs)"
  by (induction xs) auto

section \<open>The claims\<close>





text \<open>
  C6. For a horizon \<open>years \<ge> 0\<close>, in both variants: the trajectory has
  \<open>years + 1\<close> balances, the sequence of flips has \<open>years\<close> entries, heads and tails
  among them add up to \<open>years\<close>, and in every trial of a batch the trajectory has
  \<open>years + 1\<close> balances and \<open>heads_count + tails_count = years\<close>.
\<close>

theorem trial_shape:
  assumes "0 \<le> years"
  shows
  "(case simulate_investment_game initial years g of
      ((ags, path, flips), g') \<Rightarrow>
        int (length path) = years + 1 \<and> int (length flips) = years \<and>
        int (count_list flips 1) + int (count_list flips 0) = years) \<and>
   (case simulate_modified_investment_game initial years g of
      ((ags, path, flips, bets), g') \<Rightarrow>
        int (length path) = years + 1 \<and> int (length flips) = years \<and>
        int (count_list flips 1) + int (count_list flips 0) = years) \<and>
   (\<forall>t \<in> set (snd (fst (run_multiple_simulations n_sims initial years g))).
      int (length (balances t)) = years + 1 \<and> heads_count t + tails_count t = years) \<and>
   (\<forall>t \<in> set (snd (fst (run_modified_simulations n_sims initial years g))).
      int (length (balances t)) = years + 1 \<and> heads_count t + tails_count t = years)"
proof -
  let ?y = "nat years"
  have cnt: "int (count_list (flips_of ?y s) 1) + int (count_list (flips_of ?y s) 0) = years"
    for s
    using count_flips [OF set_flips_of, of ?y s] assms by (simp add: length_flips_of)
  have a: "case simulate_investment_game initial years g of
      ((ags, path, flips), g') \<Rightarrow>
        int (length path) = years + 1 \<and> int (length flips) = years \<and>
        int (count_list flips 1) + int (count_list flips 0) = years"
    using assms
    by (simp add: simulate_investment_game_char length_trace length_flips_of cnt)
  have b: "case simulate_modified_investment_game initial years g of
      ((ags, path, flips, bets), g') \<Rightarrow>
        int (length path) = years + 1 \<and> int (length flips) = years \<and>
        int (count_list flips 1) + int (count_list flips 0) = years"
    using assms
    by (simp add: simulate_modified_investment_game_char length_trace length_flips_of cnt)
  have c: "\<forall>t \<in> set (snd (fst (run_multiple_simulations n_sims initial years g))).
      int (length (balances t)) = years + 1 \<and> heads_count t + tails_count t = years"
    using assms
    by (auto simp: run_multiple_simulations_char trial_of_sel length_trace length_chunk)
  have d: "\<forall>t \<in> set (snd (fst (run_modified_simulations n_sims initial years g))).
      int (length (balances t)) = years + 1 \<and> heads_count t + tails_count t = years"
    using assms
    by (auto simp: run_modified_simulations_char trial_of_sel length_trace length_chunk)
  from a b c d show ?thesis by blast
qed

theorem trial_shape_witness:
  "(0::int) \<le> 2 \<and>
   simulate_investment_game 1000 2 (True ## False ## sconst True) =
     (([25, 26, 27], [1000, 1500, 900], [1, 0]), sconst True) \<and>
   int (length [1000, 1500, 900 :: real]) = 2 + 1 \<and> int (length [1, 0 :: int]) = 2 \<and>
   snd (fst (run_modified_simulations 2 1000 2 (True ## False ## sconst True))) =
     [\<lparr>simulation = 1, ages = [25, 26, 27], balances = [1000, 1250, 1000],
       final_balance = 1000, heads_count = 1, tails_count = 1\<rparr>,
      \<lparr>simulation = 2, ages = [25, 26, 27], balances = [1000, 1250, 1562.5],
       final_balance = 1562.5, heads_count = 2, tails_count = 0\<rparr>]"
  using trial_shape [of 2 1000 "True ## False ## sconst True" 2]
  by (simp add: simulate_investment_game_char run_modified_simulations_char
        trial_of_def chunk_def flips_of_def full_step_def half_step_def age_start_def
        eval_nat_numeral)



text \<open>
  C10. Trial number \<open>i\<close> of a batch (from 0) is the result of the path generator on
  the generator state after \<open>i * years\<close> draws: its number is \<open>i + 1\<close>, its
  trajectory is that path, its final balance is the last balance of its trajectory
  and entry \<open>i\<close> of \<open>final_balances\<close>, and its heads and tails counts are the
  numbers of 1s and of 0s among the flips of that path. Both variants.
\<close>

theorem trial_record_consistent:
  assumes "i < nat n_sims"
  shows
  "(case simulate_investment_game initial years (sdrop (i * nat years) g) of
      ((ags, path, flips), g') \<Rightarrow>
        (let t = snd (fst (run_multiple_simulations n_sims initial years g)) ! i in
           simulation t = int i + 1 \<and> balances t = path \<and>
           final_balance t = last (balances t) \<and>
           fst (fst (run_multiple_simulations n_sims initial years g)) ! i = final_balance t \<and>
           heads_count t = int (count_list flips 1) \<and>
           tails_count t = int (count_list flips 0))) \<and>
   (case simulate_modified_investment_game initial years (sdrop (i * nat years) g) of
      ((ags, path, flips, bets), g') \<Rightarrow>
        (let t = snd (fst (run_modified_simulations n_sims initial years g)) ! i in
           simulation t = int i + 1 \<and> balances t = path \<and>
           final_balance t = last (balances t) \<and>
           fst (fst (run_modified_simulations n_sims initial years g)) ! i = final_balance t \<and>
           heads_count t = int (count_list flips 1) \<and>
           tails_count t = int (count_list flips 0)))"
proof -
  let ?y = "nat years"
  let ?fl = "flips_of ?y (sdrop (i * ?y) g)"
  have h: "sum_list ?fl = int (count_list ?fl 1)"
    by (rule sum_flips [OF set_flips_of])
  have l: "int ?y - sum_list ?fl = int (count_list ?fl 0)"
    using tails_flips [OF set_flips_of, of ?y "sdrop (i * ?y) g"]
    by (simp add: length_flips_of)
  have a: "case simulate_investment_game initial years (sdrop (i * nat years) g) of
      ((ags, path, flips), g') \<Rightarrow>
        (let t = snd (fst (run_multiple_simulations n_sims initial years g)) ! i in
           simulation t = int i + 1 \<and> balances t = path \<and>
           final_balance t = last (balances t) \<and>
           fst (fst (run_multiple_simulations n_sims initial years g)) ! i = final_balance t \<and>
           heads_count t = int (count_list flips 1) \<and>
           tails_count t = int (count_list flips 0))"
    using assms h l
    by (simp add: simulate_investment_game_char run_multiple_simulations_char Let_def
          trial_of_sel last_trace chunk_def length_flips_of del: last.simps)
  have b: "case simulate_modified_investment_game initial years (sdrop (i * nat years) g) of
      ((ags, path, flips, bets), g') \<Rightarrow>
        (let t = snd (fst (run_modified_simulations n_sims initial years g)) ! i in
           simulation t = int i + 1 \<and> balances t = path \<and>
           final_balance t = last (balances t) \<and>
           fst (fst (run_modified_simulations n_sims initial years g)) ! i = final_balance t \<and>
           heads_count t = int (count_list flips 1) \<and>
           tails_count t = int (count_list flips 0))"
    using assms h l
    by (simp add: simulate_modified_investment_game_char run_modified_simulations_char Let_def
          trial_of_sel last_trace chunk_def length_flips_of del: last.simps)
  from a b show ?thesis by blast
qed

theorem trial_record_consistent_witness:
  "(1::nat) < nat 2 \<and>
   simulate_investment_game 1000 2 (sdrop (1 * nat 2) (True ## False ## sconst True)) =
     (([25, 26, 27], [1000, 1500, 2250], [1, 1]), sconst True) \<and>
   snd (fst (run_multiple_simulations 2 1000 2 (True ## False ## sconst True))) ! 1 =
     \<lparr>simulation = 2, ages = [25, 26, 27], balances = [1000, 1500, 2250],
      final_balance = 2250, heads_count = 2, tails_count = 0\<rparr> \<and>
   fst (fst (run_multiple_simulations 2 1000 2 (True ## False ## sconst True))) ! 1 = 2250 \<and>
   int (count_list [1, 1 :: int] 1) = 2 \<and> int (count_list [1, 1 :: int] 0) = 0"
  using trial_record_consistent [of 1 2 1000 2 "True ## False ## sconst True"]
  by (simp add: simulate_investment_game_char run_multiple_simulations_char
        trial_of_def chunk_def flips_of_def full_step_def age_start_def eval_nat_numeral)

text \<open>
  C7. A batch is a function of the configuration and of the first
  \<open>n_sims * years\<close> results of the randomness source: two generators that agree on
  them give identical batches (final balances, trajectories, counts, in the same
  order), in both variants; and a run advances the generator by exactly that many
  draws.
\<close>

theorem runs_reproducible:
  assumes "stake (nat n_sims * nat years) g1 = stake (nat n_sims * nat years) g2"
  shows
  "fst (run_multiple_simulations n_sims initial years g1) =
     fst (run_multiple_simulations n_sims initial years g2) \<and>
   fst (run_modified_simulations n_sims initial years g1) =
     fst (run_modified_simulations n_sims initial years g2) \<and>
   snd (run_multiple_simulations n_sims initial years g1) =
     sdrop (nat n_sims * nat years) g1 \<and>
   snd (run_modified_simulations n_sims initial years g1) =
     sdrop (nat n_sims * nat years) g1"
  using chunk_cong [OF assms]
  by (simp add: run_multiple_simulations_char run_modified_simulations_char)

theorem runs_reproducible_witness:
  "stake (nat 1 * nat 2) (True ## False ## sconst True) =
     stake (nat 1 * nat 2) (True ## False ## sconst False) \<and>
   fst (run_multiple_simulations 1 1000 2 (True ## False ## sconst True)) =
     fst (run_multiple_simulations 1 1000 2 (True ## False ## sconst False)) \<and>
   fst (run_multiple_simulations 1 1000 2 (True ## False ## sconst True)) =
     ([900],
      [\<lparr>simulation = 1, ages = [25, 26, 27], balances = [1000, 1500, 900],
        final_balance = 900, heads_count = 1, tails_count = 1\<rparr>])"
  using runs_reproducible [of 1 2 "True ## False ## sconst True"
      "True ## False ## sconst False" 1000]
  by (simp add: run_multiple_simulations_char
        trial_of_def chunk_def flips_of_def full_step_def age_start_def eval_nat_numeral)



text \<open>
  C1, as the claim states it, fails: for a trial count of 0 the batch is empty, and the
  statistics of the empty batch are \<open>nan\<close>; nothing is raised.
\<close>

theorem empty_batch_statistics_nan:
  "fst (fst (run_multiple_simulations 0 1000 30 (sconst True))) = [] \<and>
   mean_balance [] = NaN \<and> median_balance [] = NaN \<and> std_balance [] = NaN \<and>
   prob_above_initial [] 1000 = NaN \<and> prob_above_10000 [] = NaN"
  by (simp add: run_multiple_simulations_char mean_balance_def median_balance_def
        std_balance_def prob_above_initial_def prob_above_10000_def np_mean_def
        np_median_def np_std_def np_mean_bool_def np_greater_def)

text \<open>
  C1, amended. The statistics signal no error: the mean, the median, the standard
  deviation and the two threshold probabilities are \<open>nan\<close> on the empty batch, and
  numbers on every other batch.
\<close>

theorem statistics_nan_iff_empty:
  "(final_balances = [] \<longrightarrow>
      mean_balance final_balances = NaN \<and> median_balance final_balances = NaN \<and>
      std_balance final_balances = NaN \<and>
      prob_above_initial final_balances initial_balance = NaN \<and>
      prob_above_10000 final_balances = NaN) \<and>
   (final_balances \<noteq> [] \<longrightarrow>
      mean_balance final_balances \<noteq> NaN \<and> median_balance final_balances \<noteq> NaN \<and>
      std_balance final_balances \<noteq> NaN \<and>
      prob_above_initial final_balances initial_balance \<noteq> NaN \<and>
      prob_above_10000 final_balances \<noteq> NaN)"
  by (simp add: mean_balance_def median_balance_def
        std_balance_def prob_above_initial_def prob_above_10000_def np_mean_def
        np_median_def np_std_def np_mean_bool_def np_greater_def Let_def)

theorem statistics_nan_iff_empty_witness:
  "mean_balance [] = NaN \<and> median_balance [] = NaN \<and> std_balance [] = NaN \<and>
   prob_above_initial [] 1000 = NaN \<and> prob_above_10000 [] = NaN \<and>
   mean_balance [1500, 600, 1500] = Val 1200 \<and>
   median_balance [1500, 600, 1500] = Val 1500 \<and>
   std_balance [1500, 600, 1500] \<noteq> NaN \<and>
   prob_above_initial [1500, 600, 1500] 1000 = Val (2 / 3) \<and>
   prob_above_10000 [1500, 600, 1500] = Val 0"
  using statistics_nan_iff_empty [of "[]" 1000]
    statistics_nan_iff_empty [of "[1500, 600, 1500]" 1000]
  by (simp add: mean_balance_def median_balance_def
        prob_above_initial_def prob_above_10000_def np_mean_def
        np_median_def np_mean_bool_def np_greater_def Let_def)

text \<open>
  C4, as the claim states it, fails for the four categories of
  \<open>modified_strategy_simulations.py\<close>: one partial-stake trial of eleven heads ends
  above 10000, is counted as high-value and as profitable, and the four counts add up
  to 2 for a batch of 1.
\<close>

theorem four_categories_overlap:
  "fst (fst (run_modified_simulations 1 1000 11 (sconst True))) = [48828125000 / 4194304] \<and>
   high_value_sims [48828125000 / 4194304] = 1 \<and>
   profitable_sims [48828125000 / 4194304] 1000 = 1 \<and>
   catastrophic_sims [48828125000 / 4194304] = 0 \<and>
   moderate_sims 1 [48828125000 / 4194304] 1000 = 0 \<and>
   high_value_sims [48828125000 / 4194304] + profitable_sims [48828125000 / 4194304] 1000 +
     moderate_sims 1 [48828125000 / 4194304] 1000 + catastrophic_sims [48828125000 / 4194304]
     \<noteq> 1"
  by (simp add: run_modified_simulations_char chunk_def flips_of_def half_step_def
        high_value_sims_def profitable_sims_def catastrophic_sims_def moderate_sims_def
        np_sum_bool_def np_greater_def np_less_def eval_nat_numeral)

text \<open>
  C4, amended. With an initial balance of at least 100 and \<open>n_simulations\<close> the size
  of the batch, the three categories near-ruin (below 100), moderate (from 100 to the
  initial balance) and profitable (above the initial balance) partition the batch:
  their counts are the numbers of final balances in the three ranges, they add up to
  \<open>n_simulations\<close>, and every final balance is in exactly one range. The high-value
  count is not a fourth part: for an initial balance of at most 10000 it counts some of
  the profitable trials again.
\<close>

theorem three_categories_partition:
  assumes "100 \<le> initial_balance" and "int (length final_balances) = n_simulations"
  shows
  "catastrophic_sims final_balances + moderate_sims n_simulations final_balances initial_balance +
     profitable_sims final_balances initial_balance = n_simulations \<and>
   catastrophic_sims final_balances = int (length (filter (\<lambda>x. x < 100) final_balances)) \<and>
   moderate_sims n_simulations final_balances initial_balance =
     int (length (filter (\<lambda>x. 100 \<le> x \<and> x \<le> initial_balance) final_balances)) \<and>
   profitable_sims final_balances initial_balance =
     int (length (filter (\<lambda>x. x > initial_balance) final_balances)) \<and>
   (\<forall>x \<in> set final_balances.
      (x < 100 \<and> \<not> (100 \<le> x \<and> x \<le> initial_balance) \<and> \<not> x > initial_balance) \<or>
      (\<not> x < 100 \<and> (100 \<le> x \<and> x \<le> initial_balance) \<and> \<not> x > initial_balance) \<or>
      (\<not> x < 100 \<and> \<not> (100 \<le> x \<and> x \<le> initial_balance) \<and> x > initial_balance)) \<and>
   (initial_balance \<le> 10000 \<longrightarrow>
      high_value_sims final_balances \<le> profitable_sims final_balances initial_balance)"
proof -
  have m: "moderate_sims n_simulations final_balances initial_balance =
     int (length (filter (\<lambda>x. 100 \<le> x \<and> x \<le> initial_balance) final_balances))"
    using three_way_count [OF assms(1), of final_balances] assms(2)
    by (simp add: moderate_sims_def profitable_sims_def catastrophic_sims_def
          np_sum_bool_greater np_sum_bool_less)
  have s: "catastrophic_sims final_balances +
      moderate_sims n_simulations final_balances initial_balance +
      profitable_sims final_balances initial_balance = n_simulations"
    by (simp add: moderate_sims_def)
  have x: "\<forall>x \<in> set final_balances.
      (x < 100 \<and> \<not> (100 \<le> x \<and> x \<le> initial_balance) \<and> \<not> x > initial_balance) \<or>
      (\<not> x < 100 \<and> (100 \<le> x \<and> x \<le> initial_balance) \<and> \<not> x > initial_balance) \<or>
      (\<not> x < 100 \<and> \<not> (100 \<le> x \<and> x \<le> initial_balance) \<and> x > initial_balance)"
    using assms(1) by auto
  have h: "initial_balance \<le> 10000 \<longrightarrow>
      high_value_sims final_balances \<le> profitable_sims final_balances initial_balance"
    using high_le_profitable [of initial_balance final_balances]
    by (simp add: high_value_sims_def profitable_sims_def np_sum_bool_greater)
  from m s x h show ?thesis
    by (simp add: catastrophic_sims_def profitable_sims_def np_sum_bool_greater
          np_sum_bool_less)
qed

theorem three_categories_partition_witness:
  "(100::real) \<le> 1000 \<and> int (length [50, 500, 1500, 20000 :: real]) = 4 \<and>
   catastrophic_sims [50, 500, 1500, 20000] = 1 \<and>
   moderate_sims 4 [50, 500, 1500, 20000] 1000 = 1 \<and>
   profitable_sims [50, 500, 1500, 20000] 1000 = 2 \<and>
   high_value_sims [50, 500, 1500, 20000] = 1 \<and>
   catastrophic_sims [50, 500, 1500, 20000] + moderate_sims 4 [50, 500, 1500, 20000] 1000 +
     profitable_sims [50, 500, 1500, 20000] 1000 = 4"
  using three_categories_partition [of 1000 "[50, 500, 1500, 20000]" 4]
  by (simp add: high_value_sims_def profitable_sims_def catastrophic_sims_def
        moderate_sims_def np_sum_bool_def np_greater_def np_less_def)

text \<open>
  C5, as the claim states it, fails: a negative or zero initial balance, a negative
  horizon and a negative trial count are all accepted; steps are executed and trial
  results are produced from a non-positive initial balance.
\<close>

theorem invalid_configuration_is_simulated:
  "run_multiple_simulations 1 (- 1000) 1 (sconst True) =
     (([- 1500],
       [\<lparr>simulation = 1, ages = [25, 26], balances = [- 1000, - 1500],
         final_balance = - 1500, heads_count = 1, tails_count = 0\<rparr>]),
      sconst True) \<and>
   run_multiple_simulations 1 1000 (- 3) (sconst True) =
     (([1000],
       [\<lparr>simulation = 1, ages = [25], balances = [1000],
         final_balance = 1000, heads_count = 0, tails_count = 0\<rparr>]),
      sconst True) \<and>
   run_multiple_simulations (- 2) 1000 30 (sconst True) = (([], []), sconst True) \<and>
   run_modified_simulations 1 0 1 (sconst True) =
     (([0],
       [\<lparr>simulation = 1, ages = [25, 26], balances = [0, 0],
         final_balance = 0, heads_count = 1, tails_count = 0\<rparr>]),
      sconst True)"
  by (simp add: run_multiple_simulations_char run_modified_simulations_char trial_of_def
        chunk_def flips_of_def full_step_def half_step_def age_start_def eval_nat_numeral)

text \<open>
  C5, amended. The trial runners check nothing and report no error: for every trial
  count, initial balance and horizon, positive or not, they return a batch of
  \<open>max(n_sims, 0)\<close> trials, each with a trajectory of \<open>max(years, 0) + 1\<close> balances
  that starts at the given initial balance.
\<close>

theorem every_configuration_runs:
  "length (fst (fst (run_multiple_simulations n_sims initial years g))) = nat n_sims \<and>
   length (snd (fst (run_multiple_simulations n_sims initial years g))) = nat n_sims \<and>
   length (fst (fst (run_modified_simulations n_sims initial years g))) = nat n_sims \<and>
   length (snd (fst (run_modified_simulations n_sims initial years g))) = nat n_sims \<and>
   (\<forall>t \<in> set (snd (fst (run_multiple_simulations n_sims initial years g))).
      length (balances t) = nat years + 1 \<and> hd (balances t) = initial) \<and>
   (\<forall>t \<in> set (snd (fst (run_modified_simulations n_sims initial years g))).
      length (balances t) = nat years + 1 \<and> hd (balances t) = initial)"
  by (auto simp: run_multiple_simulations_char run_modified_simulations_char trial_of_sel
        length_trace length_chunk)

theorem every_configuration_runs_witness:
  "length (fst (fst (run_multiple_simulations (- 2) 1000 30 (sconst True)))) = nat (- 2) \<and>
   snd (fst (run_multiple_simulations 1 (- 1000) (- 3) (sconst True))) =
     [\<lparr>simulation = 1, ages = [25], balances = [- 1000],
       final_balance = - 1000, heads_count = 0, tails_count = 0\<rparr>] \<and>
   length [- 1000 :: real] = nat (- 3) + 1 \<and> hd [- 1000 :: real] = - 1000"
  using every_configuration_runs [of "- 2" 1000 30 "sconst True"]
    every_configuration_runs [of 1 "- 1000" "- 3" "sconst True"]
  by (simp add: run_multiple_simulations_char trial_of_def
        chunk_def flips_of_def age_start_def)

end
